theory Spec2Isabelle
  imports Complex_Main "HOL-Library.Multiset" "HOL-Library.List_Lexorder" "HOL-Library.Char_ord"
begin

section \<open>Tables: the part of pandas that 321.py uses\<close>

text \<open>
  321.py asks the OpenBB SDK for two IPO calendars, turns each answer into a pandas
  DataFrame, keeps a fixed list of columns, renames them, sorts the rows by a date column
  and renumbers them. The SDK and pandas are libraries, not code of the script; the
  operations of pandas that the script calls are modelled here after their documented
  behaviour, and the SDK is a parameter (record \<open>obb\<close> below).

  A cell is a missing value (\<open>None\<close>, \<open>NaN\<close>, \<open>NaT\<close>), a string, a number or a calendar
  date (year, month, day). Numbers are only carried from the provider to the result or
  compared, never computed with; the labels of a fresh index are the numbers 0, 1, ...
\<close>

datatype cell = NA | Str string | Num real | Date nat nat nat

text \<open>
  A row is its index label and its cells, one per column, in column order. A frame is the
  list of its column labels and the list of its rows. pandas allows a label to occur more
  than once among the columns.
\<close>

type_synonym row = "cell \<times> cell list"

record dataframe =
  columns :: "string list"
  rows :: "row list"

text \<open>
  Exceptions derived from \<open>Exception\<close>, the ones both handlers of the script catch. Each
  carries the text that \<open>str(e)\<close> gives; the wording of the library's own messages is
  abbreviated.
\<close>

datatype exn = ProviderError string | KeyError string | ValueError string | TypeError string

fun str_exn :: "exn \<Rightarrow> string" where
  "str_exn (ProviderError m) = m"
| "str_exn (KeyError m) = m"
| "str_exn (ValueError m) = m"
| "str_exn (TypeError m) = m"

text \<open>\<open>pd.DataFrame()\<close>: no columns, no rows.\<close>

definition DataFrame :: dataframe where
  "DataFrame = \<lparr>columns = [], rows = []\<rparr>"

text \<open>\<open>df.empty\<close>: true when either axis has length 0.\<close>

definition df_empty :: "dataframe \<Rightarrow> bool" where
  "df_empty df = (rows df = [] \<or> columns df = [])"

text \<open>
  \<open>df[labels]\<close> with a list of labels. A label that is not a column raises \<open>KeyError\<close>.
  Otherwise the result has, for each requested label in turn, every column carrying that
  label (one column when the labels of the frame are distinct), and each row keeps its
  index label and the cells of those columns.
\<close>

definition pick :: "string list \<Rightarrow> cell list \<Rightarrow> string \<Rightarrow> cell list" where
  "pick cols cs l = map snd (filter (\<lambda>p. fst p = l) (zip cols cs))"

definition getitem :: "dataframe \<Rightarrow> string list \<Rightarrow> exn + dataframe" where
  "getitem df labels =
     (if \<exists>l \<in> set labels. l \<notin> set (columns df)
      then Inl (KeyError ''not in index'')
      else Inr \<lparr>columns = concat (map (\<lambda>l. filter (\<lambda>c. c = l) (columns df)) labels),
                rows = map (\<lambda>r. (fst r, concat (map (pick (columns df) (snd r)) labels)))
                         (rows df)\<rparr>)"

text \<open>
  \<open>df.columns = labels\<close>: the new labels replace the old ones position by position;
  a list of another length raises \<open>ValueError\<close>.
\<close>

definition set_columns :: "dataframe \<Rightarrow> string list \<Rightarrow> exn + dataframe" where
  "set_columns df labels =
     (if length labels \<noteq> length (columns df)
      then Inl (ValueError ''Length mismatch'')
      else Inr (df\<lparr>columns := labels\<rparr>))"

text \<open>The cell of a row under a label (the first such column); \<open>NA\<close> when there is none.\<close>

definition cell_at :: "string list \<Rightarrow> cell list \<Rightarrow> string \<Rightarrow> cell" where
  "cell_at cols cs l = (case map_of (zip cols cs) l of Some v \<Rightarrow> v | None \<Rightarrow> NA)"

text \<open>
  Python's \<open>a <= b\<close> on two cells of one kind: strings by code points, numbers by value,
  dates by year, month, day. Between cells of different kinds Python raises \<open>TypeError\<close>;
  \<open>same_kind\<close> is the guard, and \<open>py_le\<close> is false there.
\<close>

fun same_kind :: "cell \<Rightarrow> cell \<Rightarrow> bool" where
  "same_kind NA NA = True"
| "same_kind (Str a) (Str b) = True"
| "same_kind (Num a) (Num b) = True"
| "same_kind (Date y m d) (Date y' m' d') = True"
| "same_kind a b = False"

fun py_le :: "cell \<Rightarrow> cell \<Rightarrow> bool" where
  "py_le (Str a) (Str b) = (a \<le> b)"
| "py_le (Num a) (Num b) = (a \<le> b)"
| "py_le (Date y m d) (Date y' m' d') = (y < y' \<or> (y = y' \<and> (m < m' \<or> (m = m' \<and> d \<le> d'))))"
| "py_le a b = False"

text \<open>
  Sorting by a comparison: each element is put before the first one it is not greater
  than. Elements with equal keys keep their order here; pandas's default sort does not
  promise an order among them, and no statement below depends on it.
\<close>

primrec insort_by :: "('a \<Rightarrow> 'a \<Rightarrow> bool) \<Rightarrow> 'a \<Rightarrow> 'a list \<Rightarrow> 'a list" where
  "insort_by le x [] = [x]"
| "insort_by le x (y # ys) = (if le x y then x # y # ys else y # insort_by le x ys)"

primrec sort_by :: "('a \<Rightarrow> 'a \<Rightarrow> bool) \<Rightarrow> 'a list \<Rightarrow> 'a list" where
  "sort_by le [] = []"
| "sort_by le (x # xs) = insort_by le x (sort_by le xs)"

text \<open>
  \<open>df.sort_values(by=label, ascending=asc)\<close>. An unknown label raises \<open>KeyError\<close>, a label
  carried by several columns \<open>ValueError\<close>. Rows whose key is missing go last, whatever the
  direction (\<open>na_position='last'\<close>); the others are ordered by their keys, and keys of
  different kinds raise \<open>TypeError\<close>. Every row keeps its index label.
\<close>

definition row_le :: "string list \<Rightarrow> string \<Rightarrow> bool \<Rightarrow> row \<Rightarrow> row \<Rightarrow> bool" where
  "row_le cols by asc r s =
     (if asc then py_le (cell_at cols (snd r) by) (cell_at cols (snd s) by)
      else py_le (cell_at cols (snd s) by) (cell_at cols (snd r) by))"

definition sort_values :: "dataframe \<Rightarrow> string \<Rightarrow> bool \<Rightarrow> exn + dataframe" where
  "sort_values df by asc =
     (if by \<notin> set (columns df) then Inl (KeyError by)
      else if 1 < count_list (columns df) by then Inl (ValueError ''label is not unique'')
      else
        let present = filter (\<lambda>r. cell_at (columns df) (snd r) by \<noteq> NA) (rows df);
            missing = filter (\<lambda>r. cell_at (columns df) (snd r) by = NA) (rows df)
        in if \<exists>r \<in> set present. \<exists>s \<in> set present.
                \<not> same_kind (cell_at (columns df) (snd r) by) (cell_at (columns df) (snd s) by)
           then Inl (TypeError ''not supported between instances'')
           else Inr (df\<lparr>rows := sort_by (row_le (columns df) by asc) present @ missing\<rparr>))"

text \<open>\<open>df.reset_index(drop=True)\<close>: the rows keep their order and are numbered from 0.\<close>

definition reset_index :: "dataframe \<Rightarrow> dataframe" where
  "reset_index df =
     df\<lparr>rows := zip (map (\<lambda>i. Num (real i)) [0 ..< length (rows df)]) (map snd (rows df))\<rparr>"

section \<open>The provider\<close>

text \<open>
  The SDK object \<open>obb\<close>: each calendar call either raises or returns a result object, whose
  \<open>to_dataframe()\<close> either raises or gives a frame; \<open>log_system_info\<close> either raises or
  returns.
\<close>

datatype obbject = OBBject (to_dataframe: "exn + dataframe")

record obb =
  upcoming_ipo :: "int \<Rightarrow> exn + obbject"
  historical_ipo :: "int \<Rightarrow> exn + obbject"
  log_system_info :: "exn option"

section \<open>The script\<close>

text \<open>Text of an integer in an f-string.\<close>

fun str_nat :: "nat \<Rightarrow> string" where
  "str_nat n =
     (if n < 10 then [''0123456789'' ! n]
      else str_nat (n div 10) @ [''0123456789'' ! (n mod 10)])"

declare str_nat.simps [simp del]

definition str_int :: "int \<Rightarrow> string" where
  "str_int i = (if i < 0 then CHR ''-'' # str_nat (nat (- i)) else str_nat (nat i))"

text \<open>
  Standard output is the list of the strings printed, one per call of \<open>print\<close>, oldest
  first. A query returns what it printed and its frame.
\<close>

definition upcoming_fields :: "string list" where
  "upcoming_fields =
     [''name'', ''expected_date'', ''expected_shares_offered'', ''price_low'', ''price_high'',
      ''exchange'']"

definition upcoming_labels :: "string list" where
  "upcoming_labels =
     [''Company Name'', ''Expected Date'', ''Shares Offered (M)'', ''Price Low ($)'',
      ''Price High ($)'', ''Exchange'']"

definition past_fields :: "string list" where
  "past_fields = [''name'', ''date'', ''price'', ''exchange'']"

definition past_labels :: "string list" where
  "past_labels = [''Company Name'', ''IPO Date'', ''IPO Price ($)'', ''Exchange'']"

text \<open>
  The body of the \<open>try\<close> of \<open>get_upcoming_ipos\<close> (lines 24 to 38): an exception raised in
  it, or what it printed and the frame it returns.
\<close>

definition upcoming_try :: "obb \<Rightarrow> int \<Rightarrow> exn + (string list \<times> dataframe)" where
  "upcoming_try sdk limit =
     (case upcoming_ipo sdk limit of
        Inl e \<Rightarrow> Inl e
      | Inr ipo_data \<Rightarrow>
          (case to_dataframe ipo_data of
             Inl e \<Rightarrow> Inl e
           | Inr df \<Rightarrow>
               if df_empty df
               then Inr ([''No upcoming IPOs found for the specified limit.''], df)
               else
                 (case getitem df upcoming_fields of
                    Inl e \<Rightarrow> Inl e
                  | Inr df1 \<Rightarrow>
                      (case set_columns df1 upcoming_labels of
                         Inl e \<Rightarrow> Inl e
                       | Inr df2 \<Rightarrow>
                           (case sort_values df2 ''Expected Date'' True of
                              Inl e \<Rightarrow> Inl e
                            | Inr df3 \<Rightarrow> Inr ([], reset_index df3))))))"

definition get_upcoming_ipos :: "obb \<Rightarrow> int \<Rightarrow> string list \<times> dataframe" where
  "get_upcoming_ipos sdk limit =
     (let header = ''--- Fetching the next '' @ str_int limit @ '' Upcoming IPOs... ---''
      in case upcoming_try sdk limit of
           Inr (out, df) \<Rightarrow> (header # out, df)
         | Inl e \<Rightarrow>
             ([header,
               ''ERROR: Could not fetch upcoming IPO data.'',
               ''Please ensure the 'openbb' library is installed and initialized correctly. Details: ''
                 @ str_exn e],
              DataFrame))"

text \<open>The same for \<open>get_past_ipos\<close> (lines 59 to 71, and the handler).\<close>

definition past_try :: "obb \<Rightarrow> int \<Rightarrow> exn + (string list \<times> dataframe)" where
  "past_try sdk limit =
     (case historical_ipo sdk limit of
        Inl e \<Rightarrow> Inl e
      | Inr ipo_data \<Rightarrow>
          (case to_dataframe ipo_data of
             Inl e \<Rightarrow> Inl e
           | Inr df \<Rightarrow>
               if df_empty df
               then Inr ([''No recent past IPOs found for the specified limit.''], df)
               else
                 (case getitem df past_fields of
                    Inl e \<Rightarrow> Inl e
                  | Inr df1 \<Rightarrow>
                      (case set_columns df1 past_labels of
                         Inl e \<Rightarrow> Inl e
                       | Inr df2 \<Rightarrow>
                           (case sort_values df2 ''IPO Date'' False of
                              Inl e \<Rightarrow> Inl e
                            | Inr df3 \<Rightarrow> Inr ([], reset_index df3))))))"

definition get_past_ipos :: "obb \<Rightarrow> int \<Rightarrow> string list \<times> dataframe" where
  "get_past_ipos sdk limit =
     (let header = ''\<newline>--- Fetching the last '' @ str_int limit @ '' Recent Past IPOs... ---''
      in case past_try sdk limit of
           Inr (out, df) \<Rightarrow> (header # out, df)
         | Inl e \<Rightarrow>
             ([header,
               ''ERROR: Could not fetch past IPO data.'',
               ''Please ensure the 'openbb' library is installed and initialized correctly. Details: ''
                 @ str_exn e],
              DataFrame))"

text \<open>
  The two display blocks of the driver (lines 90 to 94 and 100 to 104) differ in their
  title only: nothing for an empty frame, otherwise a rule, the title, the table and a
  rule. \<open>to_markdown\<close> is pandas's renderer, a parameter here.
\<close>

definition display :: "(dataframe \<Rightarrow> string) \<Rightarrow> string \<Rightarrow> dataframe \<Rightarrow> string list" where
  "display to_markdown title df =
     (if \<not> df_empty df
      then [''\<newline>'' @ replicate 70 (CHR ''=''), title, to_markdown df, replicate 70 (CHR ''='')]
      else [])"

text \<open>
  The driver (lines 78 to 106): the logging call with its exception dropped, the two
  queries with limit 10, each followed by its display block, and the closing line. It
  returns what was printed and the exit status of the process: the script ends by running
  off its last statement, which is status 0.
\<close>

definition main :: "obb \<Rightarrow> (dataframe \<Rightarrow> string) \<Rightarrow> string list \<times> nat" where
  "main sdk to_markdown =
     (let init = (case log_system_info sdk of None \<Rightarrow> [] | Some e \<Rightarrow> []);
          (out1, upcoming_df) = get_upcoming_ipos sdk 10;
          out2 = display to_markdown ''Upcoming IPOs:'' upcoming_df;
          (out3, past_df) = get_past_ipos sdk 10;
          out4 = display to_markdown ''Recent Past IPOs:'' past_df
      in (init @ out1 @ out2 @ out3 @ out4 @ [''\<newline>Script Finished.''], 0))"

section \<open>Provider responses\<close>

text \<open>The projection of a row on a list of fields, and the cells of one column, top down.\<close>

definition project :: "dataframe \<Rightarrow> string list \<Rightarrow> row \<Rightarrow> row" where
  "project df fs r = (fst r, map (cell_at (columns df) (snd r)) fs)"

definition column_of :: "dataframe \<Rightarrow> string \<Rightarrow> cell list" where
  "column_of df l = map (\<lambda>r. cell_at (columns df) (snd r) l) (rows df)"

text \<open>
  What the statements below ask of a provider response. A response is a sequence of field
  mappings: its labels are distinct and every row has one cell per label. It contains the
  fields of a query when those are among its labels and every row has a value in the date
  field, all these values being of one kind: dates, as the provider's schema has them, or
  else all strings or all numbers.
\<close>

definition frame_ok :: "dataframe \<Rightarrow> bool" where
  "frame_ok df =
     (distinct (columns df) \<and> (\<forall>r \<in> set (rows df). length (snd r) = length (columns df)))"

definition comparable :: "cell list \<Rightarrow> bool" where
  "comparable cs = (\<forall>a \<in> set cs. a \<noteq> NA \<and> (\<forall>b \<in> set cs. same_kind a b))"

definition upcoming_schema :: "dataframe \<Rightarrow> bool" where
  "upcoming_schema df =
     (frame_ok df \<and> set upcoming_fields \<subseteq> set (columns df) \<and>
      comparable (column_of df ''expected_date''))"

definition past_schema :: "dataframe \<Rightarrow> bool" where
  "past_schema df =
     (frame_ok df \<and> set past_fields \<subseteq> set (columns df) \<and>
      comparable (column_of df ''date''))"

text \<open>
  Sample responses: three upcoming offerings, out of date order, with a column the script
  does not use and index labels that are not consecutive; two past offerings; a past
  calendar without its price column; and a provider that is down.
\<close>

definition sample_upcoming :: dataframe where
  "sample_upcoming =
     \<lparr>columns = [''symbol'', ''name'', ''exchange'', ''expected_date'',
                 ''expected_shares_offered'', ''price_low'', ''price_high''],
      rows = [(Num 7, [Str ''NOVA'', Str ''Nova Grid'', Str ''NYSE'', Date 2025 3 1,
                       Num 12, Num 14, Num 16]),
              (Num 2, [Str ''KELP'', Str ''Kelp Foods'', Str ''NASDAQ'', Date 2025 1 15,
                       Num 8, Num 9, Num 11]),
              (Num 5, [Str ''TARN'', Str ''Tarn Robotics'', Str ''NASDAQ'', Date 2025 2 10,
                       Num 5, Num 20, Num 23])]\<rparr>"

definition sample_past :: dataframe where
  "sample_past =
     \<lparr>columns = [''name'', ''date'', ''price'', ''exchange''],
      rows = [(Num 0, [Str ''Orchard Bio'', Date 2024 1 1, Num 18, Str ''NYSE'']),
              (Num 1, [Str ''Left Bank Coffee'', Date 2024 6 1, Num 21, Str ''NASDAQ''])]\<rparr>"

definition sample_past_no_price :: dataframe where
  "sample_past_no_price =
     \<lparr>columns = [''name'', ''date'', ''exchange''],
      rows = [(Num 0, [Str ''Orchard Bio'', Date 2024 1 1, Str ''NYSE''])]\<rparr>"

definition sample_obb :: obb where
  "sample_obb =
     \<lparr>upcoming_ipo = (\<lambda>limit. Inr (OBBject (Inr sample_upcoming))),
      historical_ipo = (\<lambda>limit. Inr (OBBject (Inr sample_past))),
      log_system_info = None\<rparr>"

definition down_obb :: obb where
  "down_obb =
     \<lparr>upcoming_ipo = (\<lambda>limit. Inl (ProviderError ''connection refused'')),
      historical_ipo = (\<lambda>limit. Inr (OBBject (Inr sample_past_no_price))),
      log_system_info = Some (ProviderError ''no log directory'')\<rparr>"

definition quiet_obb :: obb where
  "quiet_obb =
     \<lparr>upcoming_ipo = (\<lambda>limit. Inr (OBBject (Inr \<lparr>columns = upcoming_fields, rows = []\<rparr>))),
      historical_ipo = (\<lambda>limit. Inr (OBBject (Inr \<lparr>columns = past_fields, rows = []\<rparr>))),
      log_system_info = None\<rparr>"

text \<open>A stand-in for the renderer: the header line of the table.\<close>

definition header_only :: "dataframe \<Rightarrow> string" where
  "header_only df = concat (map (\<lambda>c. ''| '' @ c @ '' '') (columns df)) @ ''|''"

section \<open>Properties of the table operations\<close>

lemma filter_label: "distinct cols \<Longrightarrow> l \<in> set cols \<Longrightarrow> filter (\<lambda>c. c = l) cols = [l]"
  by (induction cols) (auto simp: filter_empty_conv)

lemma concat_filter_labels:
  "distinct cols \<Longrightarrow> set fs \<subseteq> set cols \<Longrightarrow>
   concat (map (\<lambda>l. filter (\<lambda>c. c = l) cols) fs) = fs"
  by (induction fs) (auto simp: filter_label)

lemma pick_single:
  "distinct cols \<Longrightarrow> length cs = length cols \<Longrightarrow> l \<in> set cols \<Longrightarrow>
   pick cols cs l = [cell_at cols cs l]"
proof (induction cols arbitrary: cs)
  case Nil
  then show ?case by simp
next
  case (Cons c cols)
  then obtain v vs where cs: "cs = v # vs" by (cases cs) auto
  show ?case
  proof (cases "c = l")
    case True
    with Cons.prems cs have "filter (\<lambda>p. fst p = l) (zip cols vs) = []"
      by (auto simp: filter_empty_conv dest: set_zip_leftD)
    with True cs show ?thesis by (simp add: pick_def cell_at_def)
  next
    case False
    with Cons cs show ?thesis by (simp add: pick_def cell_at_def)
  qed
qed

lemma concat_pick:
  "distinct cols \<Longrightarrow> length cs = length cols \<Longrightarrow> set fs \<subseteq> set cols \<Longrightarrow>
   concat (map (pick cols cs) fs) = map (cell_at cols cs) fs"
  by (induction fs) (auto simp: pick_single)

lemma getitem_ok:
  assumes "frame_ok df" and "set fs \<subseteq> set (columns df)"
  shows "getitem df fs = Inr \<lparr>columns = fs, rows = map (project df fs) (rows df)\<rparr>"
proof -
  have c: "concat (map (\<lambda>l. filter (\<lambda>c. c = l) (columns df)) fs) = fs"
    using assms by (intro concat_filter_labels) (auto simp: frame_ok_def)
  have r: "(fst r, concat (map (pick (columns df) (snd r)) fs)) = project df fs r"
    if "r \<in> set (rows df)" for r
    using assms that by (simp add: project_def frame_ok_def concat_pick)
  have "\<not> (\<exists>l \<in> set fs. l \<notin> set (columns df))" using assms by auto
  then show ?thesis using c r by (simp add: getitem_def cong: map_cong)
qed


lemma mset_insort_by: "mset (insort_by le x xs) = add_mset x (mset xs)"
  by (induction xs) auto

lemma mset_sort_by: "mset (sort_by le xs) = mset xs"
  by (induction xs) (auto simp: mset_insort_by)

lemma set_sort_by: "set (sort_by le xs) = set xs"
  using mset_sort_by [of le xs] by (metis set_mset_mset)

lemma length_sort_by: "length (sort_by le xs) = length xs"
  using mset_sort_by [of le xs] by (metis size_mset)

lemma set_insort_by: "set (insort_by le x xs) = insert x (set xs)"
  using mset_insort_by [of le x xs] by (metis set_mset_mset set_mset_add_mset_insert)

lemma sorted_insort_by:
  assumes tot: "\<And>a b. a \<in> S \<Longrightarrow> b \<in> S \<Longrightarrow> le a b \<or> le b a"
    and tr: "\<And>a b c. le a b \<Longrightarrow> le b c \<Longrightarrow> le a c"
  shows "x \<in> S \<Longrightarrow> set xs \<subseteq> S \<Longrightarrow> sorted_wrt le xs \<Longrightarrow> sorted_wrt le (insort_by le x xs)"
proof (induction xs)
  case Nil
  then show ?case by simp
next
  case (Cons y ys)
  show ?case
  proof (cases "le x y")
    case True
    with Cons.prems tr show ?thesis by auto
  next
    case False
    with tot [of x y] Cons.prems have "le y x" by auto
    with False Cons show ?thesis by (auto simp: set_insort_by)
  qed
qed

lemma sorted_sort_by:
  assumes tot: "\<And>a b. a \<in> S \<Longrightarrow> b \<in> S \<Longrightarrow> le a b \<or> le b a"
    and tr: "\<And>a b c. le a b \<Longrightarrow> le b c \<Longrightarrow> le a c"
  shows "set xs \<subseteq> S \<Longrightarrow> sorted_wrt le (sort_by le xs)"
proof (induction xs)
  case Nil
  then show ?case by simp
next
  case (Cons x xs)
  then have "sorted_wrt le (sort_by le xs)" and "x \<in> S" and "set (sort_by le xs) \<subseteq> S"
    by (auto simp: set_sort_by)
  then show ?case using sorted_insort_by [of S le x "sort_by le xs", OF tot tr] by simp
qed

lemma py_le_total: "a \<noteq> NA \<Longrightarrow> same_kind a b \<Longrightarrow> py_le a b \<or> py_le b a"
  by (cases a; cases b) auto

lemma py_le_trans: "py_le a b \<Longrightarrow> py_le b c \<Longrightarrow> py_le a c"
  by (cases a; cases b; cases c) auto

lemma count_list_distinct: "distinct cols \<Longrightarrow> count_list cols l \<le> 1"
  by (induction cols) auto

lemma sort_values_comparable:
  assumes "by \<in> set cols" and "distinct cols"
    and "comparable (column_of \<lparr>columns = cols, rows = rs\<rparr> by)"
  shows "sort_values \<lparr>columns = cols, rows = rs\<rparr> by asc =
         Inr \<lparr>columns = cols, rows = sort_by (row_le cols by asc) rs\<rparr>"
proof -
  have one: "\<not> 1 < count_list cols by"
    using assms(2) count_list_distinct [of cols "by"] by simp
  from assms(3) have present: "\<forall>r \<in> set rs. cell_at cols (snd r) by \<noteq> NA"
    and kinds: "\<forall>r \<in> set rs. \<forall>s \<in> set rs.
                  same_kind (cell_at cols (snd r) by) (cell_at cols (snd s) by)"
    by (simp_all add: comparable_def column_of_def)
  have p: "filter (\<lambda>r. cell_at cols (snd r) by \<noteq> NA) rs = rs"
    using present by (simp add: filter_id_conv)
  have m: "filter (\<lambda>r. cell_at cols (snd r) by = NA) rs = []"
    using present by (simp add: filter_empty_conv)
  have k: "\<not> (\<exists>r \<in> set rs. \<exists>s \<in> set rs.
             \<not> same_kind (cell_at cols (snd r) by) (cell_at cols (snd s) by))"
    using kinds by simp
  show ?thesis using assms(1) one k by (simp add: sort_values_def p m)
qed

lemma upcoming_key:
  "cell_at upcoming_labels (snd (project df upcoming_fields r)) ''Expected Date'' =
   cell_at (columns df) (snd r) ''expected_date''"
  by (simp add: project_def cell_at_def upcoming_labels_def upcoming_fields_def)

lemma past_key:
  "cell_at past_labels (snd (project df past_fields r)) ''IPO Date'' =
   cell_at (columns df) (snd r) ''date''"
  by (simp add: project_def cell_at_def past_labels_def past_fields_def)

lemma upcoming_try_ok:
  assumes "upcoming_ipo sdk limit = Inr (OBBject (Inr df))" and "rows df \<noteq> []"
    and "upcoming_schema df"
  shows "upcoming_try sdk limit =
         Inr ([], reset_index \<lparr>columns = upcoming_labels,
                rows = sort_by (row_le upcoming_labels ''Expected Date'' True)
                         (map (project df upcoming_fields) (rows df))\<rparr>)"
proof -
  from assms(3) have ok: "frame_ok df" and sub: "set upcoming_fields \<subseteq> set (columns df)"
    and dates: "comparable (column_of df ''expected_date'')"
    by (simp_all add: upcoming_schema_def)
  from sub have "columns df \<noteq> []" by (auto simp: upcoming_fields_def)
  with assms(2) have ne: "\<not> df_empty df" by (simp add: df_empty_def)
  have g: "getitem df upcoming_fields =
           Inr \<lparr>columns = upcoming_fields, rows = map (project df upcoming_fields) (rows df)\<rparr>"
    using ok sub by (rule getitem_ok)
  have c: "set_columns \<lparr>columns = upcoming_fields, rows = map (project df upcoming_fields) (rows df)\<rparr>
             upcoming_labels =
           Inr \<lparr>columns = upcoming_labels, rows = map (project df upcoming_fields) (rows df)\<rparr>"
    by (simp add: set_columns_def upcoming_fields_def upcoming_labels_def)
  have s: "sort_values \<lparr>columns = upcoming_labels, rows = map (project df upcoming_fields) (rows df)\<rparr>
             ''Expected Date'' True =
           Inr \<lparr>columns = upcoming_labels,
                rows = sort_by (row_le upcoming_labels ''Expected Date'' True)
                         (map (project df upcoming_fields) (rows df))\<rparr>"
  proof (rule sort_values_comparable)
    show "''Expected Date'' \<in> set upcoming_labels" by (simp add: upcoming_labels_def)
    show "distinct upcoming_labels" by (simp add: upcoming_labels_def)
    show "comparable (column_of \<lparr>columns = upcoming_labels,
                 rows = map (project df upcoming_fields) (rows df)\<rparr> ''Expected Date'')"
      using dates by (simp add: column_of_def comp_def upcoming_key)
  qed
  show ?thesis using assms(1) ne by (simp add: upcoming_try_def g c s)
qed

lemma past_try_ok:
  assumes "historical_ipo sdk limit = Inr (OBBject (Inr df))" and "rows df \<noteq> []"
    and "past_schema df"
  shows "past_try sdk limit =
         Inr ([], reset_index \<lparr>columns = past_labels,
                rows = sort_by (row_le past_labels ''IPO Date'' False)
                         (map (project df past_fields) (rows df))\<rparr>)"
proof -
  from assms(3) have ok: "frame_ok df" and sub: "set past_fields \<subseteq> set (columns df)"
    and dates: "comparable (column_of df ''date'')"
    by (simp_all add: past_schema_def)
  from sub have "columns df \<noteq> []" by (auto simp: past_fields_def)
  with assms(2) have ne: "\<not> df_empty df" by (simp add: df_empty_def)
  have g: "getitem df past_fields =
           Inr \<lparr>columns = past_fields, rows = map (project df past_fields) (rows df)\<rparr>"
    using ok sub by (rule getitem_ok)
  have c: "set_columns \<lparr>columns = past_fields, rows = map (project df past_fields) (rows df)\<rparr>
             past_labels =
           Inr \<lparr>columns = past_labels, rows = map (project df past_fields) (rows df)\<rparr>"
    by (simp add: set_columns_def past_fields_def past_labels_def)
  have s: "sort_values \<lparr>columns = past_labels, rows = map (project df past_fields) (rows df)\<rparr>
             ''IPO Date'' False =
           Inr \<lparr>columns = past_labels,
                rows = sort_by (row_le past_labels ''IPO Date'' False)
                         (map (project df past_fields) (rows df))\<rparr>"
  proof (rule sort_values_comparable)
    show "''IPO Date'' \<in> set past_labels" by (simp add: past_labels_def)
    show "distinct past_labels" by (simp add: past_labels_def)
    show "comparable (column_of \<lparr>columns = past_labels,
                 rows = map (project df past_fields) (rows df)\<rparr> ''IPO Date'')"
      using dates by (simp add: column_of_def comp_def past_key)
  qed
  show ?thesis using assms(1) ne by (simp add: past_try_def g c s)
qed


lemma columns_reset_index: "columns (reset_index df) = columns df"
  by (simp add: reset_index_def)

lemma cells_reset_index: "map snd (rows (reset_index df)) = map snd (rows df)"
  by (simp add: reset_index_def)

lemma index_reset_index:
  "map fst (rows (reset_index df)) = map (\<lambda>i. Num (real i)) [0 ..< length (rows df)]"
  by (simp add: reset_index_def)

lemma length_reset_index: "length (rows (reset_index df)) = length (rows df)"
  by (simp add: reset_index_def)

lemma column_of_reset_index: "column_of (reset_index df) l = column_of df l"
proof -
  have "column_of (reset_index df) l =
        map (\<lambda>cs. cell_at (columns df) cs l) (map snd (rows (reset_index df)))"
    by (simp add: column_of_def columns_reset_index comp_def)
  also have "\<dots> = map (\<lambda>cs. cell_at (columns df) cs l) (map snd (rows df))"
    by (simp only: cells_reset_index)
  also have "\<dots> = column_of df l"
    by (simp add: column_of_def comp_def)
  finally show ?thesis .
qed

lemma map_insort_by:
  "map f (insort_by (\<lambda>a b. le (f a) (f b)) x xs) = insort_by le (f x) (map f xs)"
  by (induction xs) auto

lemma map_sort_by: "map f (sort_by (\<lambda>a b. le (f a) (f b)) xs) = sort_by le (map f xs)"
  by (induction xs) (auto simp: map_insort_by)

lemma column_of_sorted:
  "column_of \<lparr>columns = cols, rows = sort_by (row_le cols l asc) rs\<rparr> l =
   sort_by (\<lambda>a b. if asc then py_le a b else py_le b a)
     (column_of \<lparr>columns = cols, rows = rs\<rparr> l)"
proof -
  have "row_le cols l asc =
        (\<lambda>r s. (if asc then py_le (cell_at cols (snd r) l) (cell_at cols (snd s) l)
                else py_le (cell_at cols (snd s) l) (cell_at cols (snd r) l)))"
    by (intro ext) (simp add: row_le_def)
  then show ?thesis
    using map_sort_by [of "\<lambda>r. cell_at cols (snd r) l"
                          "\<lambda>a b. if asc then py_le a b else py_le b a" rs]
    by (simp add: column_of_def)
qed

lemma upcoming_result:
  assumes "upcoming_ipo sdk limit = Inr (OBBject (Inr df))" and "rows df \<noteq> []"
    and "upcoming_schema df"
  shows "get_upcoming_ipos sdk limit =
         ([''--- Fetching the next '' @ str_int limit @ '' Upcoming IPOs... ---''],
          reset_index \<lparr>columns = upcoming_labels,
            rows = sort_by (row_le upcoming_labels ''Expected Date'' True)
                     (map (project df upcoming_fields) (rows df))\<rparr>)"
  by (simp add: get_upcoming_ipos_def upcoming_try_ok [OF assms])

lemma past_result:
  assumes "historical_ipo sdk limit = Inr (OBBject (Inr df))" and "rows df \<noteq> []"
    and "past_schema df"
  shows "get_past_ipos sdk limit =
         ([''\<newline>--- Fetching the last '' @ str_int limit @ '' Recent Past IPOs... ---''],
          reset_index \<lparr>columns = past_labels,
            rows = sort_by (row_le past_labels ''IPO Date'' False)
                     (map (project df past_fields) (rows df))\<rparr>)"
  by (simp add: get_past_ipos_def past_try_ok [OF assms])

lemma upcoming_dates:
  assumes "upcoming_ipo sdk limit = Inr (OBBject (Inr df))" and "rows df \<noteq> []"
    and "upcoming_schema df"
  shows "column_of (snd (get_upcoming_ipos sdk limit)) ''Expected Date'' =
         sort_by py_le (column_of df ''expected_date'')"
proof -
  have "column_of \<lparr>columns = upcoming_labels, rows = map (project df upcoming_fields) (rows df)\<rparr>
          ''Expected Date'' = column_of df ''expected_date''"
    by (simp add: column_of_def comp_def upcoming_key)
  then show ?thesis
    by (simp add: upcoming_result [OF assms] column_of_reset_index column_of_sorted)
qed

lemma past_dates:
  assumes "historical_ipo sdk limit = Inr (OBBject (Inr df))" and "rows df \<noteq> []"
    and "past_schema df"
  shows "column_of (snd (get_past_ipos sdk limit)) ''IPO Date'' =
         sort_by (\<lambda>a b. py_le b a) (column_of df ''date'')"
proof -
  have "column_of \<lparr>columns = past_labels, rows = map (project df past_fields) (rows df)\<rparr>
          ''IPO Date'' = column_of df ''date''"
    by (simp add: column_of_def comp_def past_key)
  then show ?thesis
    by (simp add: past_result [OF assms] column_of_reset_index column_of_sorted)
qed

lemma sorted_asc:
  assumes "comparable ds"
  shows "sorted_wrt py_le (sort_by py_le ds)"
proof (rule sorted_sort_by [where S = "set ds"])
  show "py_le a b \<or> py_le b a" if "a \<in> set ds" and "b \<in> set ds" for a b
    using that assms by (intro py_le_total) (auto simp: comparable_def)
  show "py_le a c" if "py_le a b" and "py_le b c" for a b c
    using that by (rule py_le_trans)
  show "set ds \<subseteq> set ds" by simp
qed

lemma sorted_desc:
  assumes "comparable ds"
  shows "sorted_wrt (\<lambda>a b. py_le b a) (sort_by (\<lambda>a b. py_le b a) ds)"
proof (rule sorted_sort_by [where S = "set ds"])
  have "py_le a b \<or> py_le b a" if "a \<in> set ds" and "b \<in> set ds" for a b
    using that assms by (intro py_le_total) (auto simp: comparable_def)
  then show "py_le b a \<or> py_le a b" if "a \<in> set ds" and "b \<in> set ds" for a b
    using that by blast
  show "py_le c a" if "py_le b a" and "py_le c b" for a b c
    using that(2,1) by (rule py_le_trans)
  show "set ds \<subseteq> set ds" by simp
qed

lemma sample_upcoming_schema: "upcoming_schema sample_upcoming"
  by (simp add: upcoming_schema_def frame_ok_def comparable_def column_of_def
      sample_upcoming_def upcoming_fields_def cell_at_def)

lemma sample_past_schema: "past_schema sample_past"
  by (simp add: past_schema_def frame_ok_def comparable_def column_of_def sample_past_def
      past_fields_def cell_at_def)

section \<open>Properties of the script\<close>

lemma length_column_of: "length (column_of df l) = length (rows df)"
  by (simp add: column_of_def)

lemma sample_past_dates: "column_of sample_past ''date'' = [Date 2024 1 1, Date 2024 6 1]"
  by (simp add: column_of_def sample_past_def cell_at_def)

lemma upcoming_cells:
  assumes "upcoming_ipo sdk n = Inr (OBBject (Inr df))" and "rows df \<noteq> []"
    and "upcoming_schema df"
  shows "map snd (rows (snd (get_upcoming_ipos sdk n))) =
         map snd (sort_by (row_le upcoming_labels ''Expected Date'' True)
                    (map (project df upcoming_fields) (rows df)))"
  by (simp add: upcoming_result [OF assms] cells_reset_index)

lemma past_cells:
  assumes "historical_ipo sdk n = Inr (OBBject (Inr df))" and "rows df \<noteq> []"
    and "past_schema df"
  shows "map snd (rows (snd (get_past_ipos sdk n))) =
         map snd (sort_by (row_le past_labels ''IPO Date'' False)
                    (map (project df past_fields) (rows df)))"
  by (simp add: past_result [OF assms] cells_reset_index)

lemma upcoming_length:
  assumes "upcoming_ipo sdk n = Inr (OBBject (Inr df))" and "rows df \<noteq> []"
    and "upcoming_schema df"
  shows "length (rows (snd (get_upcoming_ipos sdk n))) = length (rows df)"
  by (simp add: upcoming_result [OF assms] length_reset_index length_sort_by)

lemma past_length:
  assumes "historical_ipo sdk n = Inr (OBBject (Inr df))" and "rows df \<noteq> []"
    and "past_schema df"
  shows "length (rows (snd (get_past_ipos sdk n))) = length (rows df)"
  by (simp add: past_result [OF assms] length_reset_index length_sort_by)

lemma sample_upcoming_dates:
  "column_of sample_upcoming ''expected_date'' = [Date 2025 3 1, Date 2025 1 15, Date 2025 2 10]"
  by (simp add: column_of_def sample_upcoming_def cell_at_def)

lemma upcoming_try_raised:
  "upcoming_ipo sdk n = Inl e \<Longrightarrow> upcoming_try sdk n = Inl e"
  by (simp add: upcoming_try_def)

lemma past_try_raised:
  "historical_ipo sdk n = Inl e \<Longrightarrow> past_try sdk n = Inl e"
  by (simp add: past_try_def)

lemma upcoming_try_conversion:
  "upcoming_ipo sdk n = Inr ob \<Longrightarrow> to_dataframe ob = Inl e \<Longrightarrow> upcoming_try sdk n = Inl e"
  by (simp add: upcoming_try_def)

lemma past_try_conversion:
  "historical_ipo sdk n = Inr ob \<Longrightarrow> to_dataframe ob = Inl e \<Longrightarrow> past_try sdk n = Inl e"
  by (simp add: past_try_def)

lemma getitem_missing:
  "\<not> set fs \<subseteq> set (columns df) \<Longrightarrow> getitem df fs = Inl (KeyError ''not in index'')"
  by (auto simp: getitem_def)

lemma upcoming_try_missing:
  "upcoming_ipo sdk n = Inr (OBBject (Inr df)) \<Longrightarrow> \<not> df_empty df \<Longrightarrow>
   \<not> set upcoming_fields \<subseteq> set (columns df) \<Longrightarrow>
   upcoming_try sdk n = Inl (KeyError ''not in index'')"
  by (simp add: upcoming_try_def getitem_missing)

lemma past_try_missing:
  "historical_ipo sdk n = Inr (OBBject (Inr df)) \<Longrightarrow> \<not> df_empty df \<Longrightarrow>
   \<not> set past_fields \<subseteq> set (columns df) \<Longrightarrow>
   past_try sdk n = Inl (KeyError ''not in index'')"
  by (simp add: past_try_def getitem_missing)

lemma upcoming_caught:
  "upcoming_try sdk n = Inl e \<Longrightarrow>
   get_upcoming_ipos sdk n =
     ([''--- Fetching the next '' @ str_int n @ '' Upcoming IPOs... ---'',
       ''ERROR: Could not fetch upcoming IPO data.'',
       ''Please ensure the 'openbb' library is installed and initialized correctly. Details: ''
         @ str_exn e],
      \<lparr>columns = [], rows = []\<rparr>)"
  by (simp add: get_upcoming_ipos_def DataFrame_def)

lemma past_caught:
  "past_try sdk n = Inl e \<Longrightarrow>
   get_past_ipos sdk n =
     ([''\<newline>--- Fetching the last '' @ str_int n @ '' Recent Past IPOs... ---'',
       ''ERROR: Could not fetch past IPO data.'',
       ''Please ensure the 'openbb' library is installed and initialized correctly. Details: ''
         @ str_exn e],
      \<lparr>columns = [], rows = []\<rparr>)"
  by (simp add: get_past_ipos_def DataFrame_def)

lemma display_no_rows: "rows df = [] \<Longrightarrow> display tm title df = []"
  by (simp add: display_def df_empty_def)

lemma main_unfold:
  "main sdk tm =
     (fst (get_upcoming_ipos sdk 10) @ display tm ''Upcoming IPOs:'' (snd (get_upcoming_ipos sdk 10)) @
      fst (get_past_ipos sdk 10) @ display tm ''Recent Past IPOs:'' (snd (get_past_ipos sdk 10)) @
      [''\<newline>Script Finished.''], 0)"
  by (simp add: main_def Let_def split: prod.splits option.splits)

lemma upcoming_try_no_rows:
  "upcoming_ipo sdk n = Inr (OBBject (Inr df)) \<Longrightarrow> rows df = [] \<Longrightarrow>
   upcoming_try sdk n = Inr ([''No upcoming IPOs found for the specified limit.''], df)"
  by (simp add: upcoming_try_def df_empty_def)

lemma past_try_no_rows:
  "historical_ipo sdk n = Inr (OBBject (Inr df)) \<Longrightarrow> rows df = [] \<Longrightarrow>
   past_try sdk n = Inr ([''No recent past IPOs found for the specified limit.''], df)"
  by (simp add: past_try_def df_empty_def)

lemma upcoming_no_rows:
  "upcoming_ipo sdk n = Inr (OBBject (Inr df)) \<Longrightarrow> rows df = [] \<Longrightarrow>
   get_upcoming_ipos sdk n =
     ([''--- Fetching the next '' @ str_int n @ '' Upcoming IPOs... ---'',
       ''No upcoming IPOs found for the specified limit.''], df)"
  by (simp add: get_upcoming_ipos_def upcoming_try_no_rows)

lemma past_no_rows:
  "historical_ipo sdk n = Inr (OBBject (Inr df)) \<Longrightarrow> rows df = [] \<Longrightarrow>
   get_past_ipos sdk n =
     ([''\<newline>--- Fetching the last '' @ str_int n @ '' Recent Past IPOs... ---'',
       ''No recent past IPOs found for the specified limit.''], df)"
  by (simp add: get_past_ipos_def past_try_no_rows)

lemma upcoming_ignores_hook:
  "get_upcoming_ipos (sdk\<lparr>log_system_info := h\<rparr>) n = get_upcoming_ipos sdk n"
  by (simp add: get_upcoming_ipos_def upcoming_try_def)

lemma past_ignores_hook:
  "get_past_ipos (sdk\<lparr>log_system_info := h\<rparr>) n = get_past_ipos sdk n"
  by (simp add: get_past_ipos_def past_try_def)

lemma down_upcoming_try:
  "upcoming_try down_obb 10 = Inl (ProviderError ''connection refused'')"
  by (simp add: upcoming_try_def down_obb_def)

section \<open>The claims\<close>

text \<open>
  C1. When the provider answers with at least one row and the response contains the
  required fields, the upcoming query returns a table whose columns are exactly Company
  Name, Expected Date, Shares Offered (M), Price Low ($), Price High ($), Exchange, in that
  order, and the past query one whose columns are exactly Company Name, IPO Date,
  IPO Price ($), Exchange.
\<close>

theorem columns_exact:
  "(upcoming_ipo sdk n = Inr (OBBject (Inr udf)) \<and> rows udf \<noteq> [] \<and> upcoming_schema udf \<longrightarrow>
      columns (snd (get_upcoming_ipos sdk n)) =
        [''Company Name'', ''Expected Date'', ''Shares Offered (M)'', ''Price Low ($)'',
         ''Price High ($)'', ''Exchange'']) \<and>
   (historical_ipo sdk m = Inr (OBBject (Inr pdf)) \<and> rows pdf \<noteq> [] \<and> past_schema pdf \<longrightarrow>
      columns (snd (get_past_ipos sdk m)) =
        [''Company Name'', ''IPO Date'', ''IPO Price ($)'', ''Exchange''])"
proof (intro conjI impI)
  assume "upcoming_ipo sdk n = Inr (OBBject (Inr udf)) \<and> rows udf \<noteq> [] \<and> upcoming_schema udf"
  then have "get_upcoming_ipos sdk n =
         ([''--- Fetching the next '' @ str_int n @ '' Upcoming IPOs... ---''],
          reset_index \<lparr>columns = upcoming_labels,
            rows = sort_by (row_le upcoming_labels ''Expected Date'' True)
                     (map (project udf upcoming_fields) (rows udf))\<rparr>)"
    by (intro upcoming_result) simp_all
  then show "columns (snd (get_upcoming_ipos sdk n)) =
        [''Company Name'', ''Expected Date'', ''Shares Offered (M)'', ''Price Low ($)'',
         ''Price High ($)'', ''Exchange'']"
    by (simp add: columns_reset_index upcoming_labels_def)
next
  assume "historical_ipo sdk m = Inr (OBBject (Inr pdf)) \<and> rows pdf \<noteq> [] \<and> past_schema pdf"
  then have "get_past_ipos sdk m =
         ([''\<newline>--- Fetching the last '' @ str_int m @ '' Recent Past IPOs... ---''],
          reset_index \<lparr>columns = past_labels,
            rows = sort_by (row_le past_labels ''IPO Date'' False)
                     (map (project pdf past_fields) (rows pdf))\<rparr>)"
    by (intro past_result) simp_all
  then show "columns (snd (get_past_ipos sdk m)) =
        [''Company Name'', ''IPO Date'', ''IPO Price ($)'', ''Exchange'']"
    by (simp add: columns_reset_index past_labels_def)
qed

text \<open>The sample provider is such a case.\<close>

theorem columns_exact_witness:
  "columns (snd (get_upcoming_ipos sample_obb 10)) =
     [''Company Name'', ''Expected Date'', ''Shares Offered (M)'', ''Price Low ($)'',
      ''Price High ($)'', ''Exchange''] \<and>
   columns (snd (get_past_ipos sample_obb 10)) =
     [''Company Name'', ''IPO Date'', ''IPO Price ($)'', ''Exchange'']"
proof -
  have u: "upcoming_ipo sample_obb 10 = Inr (OBBject (Inr sample_upcoming))"
    and p: "historical_ipo sample_obb 10 = Inr (OBBject (Inr sample_past))"
    by (simp_all add: sample_obb_def)
  have "rows sample_upcoming \<noteq> []" and "rows sample_past \<noteq> []"
    by (simp_all add: sample_upcoming_def sample_past_def)
  with u p sample_upcoming_schema sample_past_schema
  show ?thesis
    using columns_exact [of sample_obb 10 sample_upcoming 10 sample_past] by simp
qed

text \<open>
  C2. When the provider answers with at least one row and the response contains the
  required fields, the rows the upcoming query returns are in non-decreasing order of
  Expected Date: at any two positions, the earlier row's date is at most the later
  row's. There are as many dates as the provider gave rows.
\<close>

theorem upcoming_nondecreasing:
  assumes "upcoming_ipo sdk n = Inr (OBBject (Inr df))" and "rows df \<noteq> []"
    and "upcoming_schema df"
  shows "length (column_of (snd (get_upcoming_ipos sdk n)) ''Expected Date'') = length (rows df) \<and>
         (\<forall>i j. i < j \<and> j < length (column_of (snd (get_upcoming_ipos sdk n)) ''Expected Date'') \<longrightarrow>
            py_le (column_of (snd (get_upcoming_ipos sdk n)) ''Expected Date'' ! i)
                  (column_of (snd (get_upcoming_ipos sdk n)) ''Expected Date'' ! j))"
proof -
  from assms(3) have "comparable (column_of df ''expected_date'')"
    by (simp add: upcoming_schema_def)
  then have "sorted_wrt py_le (sort_by py_le (column_of df ''expected_date''))"
    by (rule sorted_asc)
  then have s: "sorted_wrt py_le (column_of (snd (get_upcoming_ipos sdk n)) ''Expected Date'')"
    by (simp only: upcoming_dates [OF assms])
  have "length (column_of (snd (get_upcoming_ipos sdk n)) ''Expected Date'') =
        length (sort_by py_le (column_of df ''expected_date''))"
    by (simp only: upcoming_dates [OF assms])
  then have "length (column_of (snd (get_upcoming_ipos sdk n)) ''Expected Date'') = length (rows df)"
    by (simp only: length_sort_by length_column_of)
  with s show ?thesis by (simp add: sorted_wrt_iff_nth_less)
qed

text \<open>The sample provider, with three upcoming offerings out of order.\<close>

theorem upcoming_nondecreasing_witness:
  "length (column_of (snd (get_upcoming_ipos sample_obb 10)) ''Expected Date'') = 3 \<and>
   py_le (column_of (snd (get_upcoming_ipos sample_obb 10)) ''Expected Date'' ! 0)
         (column_of (snd (get_upcoming_ipos sample_obb 10)) ''Expected Date'' ! 1) \<and>
   py_le (column_of (snd (get_upcoming_ipos sample_obb 10)) ''Expected Date'' ! 1)
         (column_of (snd (get_upcoming_ipos sample_obb 10)) ''Expected Date'' ! 2) \<and>
   py_le (column_of (snd (get_upcoming_ipos sample_obb 10)) ''Expected Date'' ! 0)
         (column_of (snd (get_upcoming_ipos sample_obb 10)) ''Expected Date'' ! 2)"
proof -
  have u: "upcoming_ipo sample_obb 10 = Inr (OBBject (Inr sample_upcoming))"
    by (simp add: sample_obb_def)
  have r: "rows sample_upcoming \<noteq> []" and l: "length (rows sample_upcoming) = 3"
    by (simp_all add: sample_upcoming_def)
  note t = upcoming_nondecreasing [OF u r sample_upcoming_schema]
  from t l have len: "length (column_of (snd (get_upcoming_ipos sample_obb 10)) ''Expected Date'') = 3"
    by simp
  from t have ord: "i < j \<and> j < length (column_of (snd (get_upcoming_ipos sample_obb 10)) ''Expected Date'') \<Longrightarrow>
      py_le (column_of (snd (get_upcoming_ipos sample_obb 10)) ''Expected Date'' ! i)
            (column_of (snd (get_upcoming_ipos sample_obb 10)) ''Expected Date'' ! j)" for i j
    by blast
  from len ord [of 0 1] ord [of 1 2] ord [of 0 2] show ?thesis by simp
qed

text \<open>
  C3. When the provider answers with at least one row and the response contains the
  required fields, the rows the past query returns are in non-increasing order of IPO
  Date: at any two positions, the earlier row's date is at least the later row's. In
  particular a response with the dates 2024-01-01, 2024-06-01 comes back, with limit 10,
  in the order 2024-06-01, 2024-01-01.
\<close>

theorem past_nonincreasing:
  "(historical_ipo sdk n = Inr (OBBject (Inr df)) \<and> rows df \<noteq> [] \<and> past_schema df \<longrightarrow>
      length (column_of (snd (get_past_ipos sdk n)) ''IPO Date'') = length (rows df) \<and>
      (\<forall>i j. i < j \<and> j < length (column_of (snd (get_past_ipos sdk n)) ''IPO Date'') \<longrightarrow>
         py_le (column_of (snd (get_past_ipos sdk n)) ''IPO Date'' ! j)
               (column_of (snd (get_past_ipos sdk n)) ''IPO Date'' ! i))) \<and>
   (historical_ipo sdk 10 = Inr (OBBject (Inr pdf)) \<and> past_schema pdf \<and>
    column_of pdf ''date'' = [Date 2024 1 1, Date 2024 6 1] \<longrightarrow>
      column_of (snd (get_past_ipos sdk 10)) ''IPO Date'' = [Date 2024 6 1, Date 2024 1 1])"
proof (intro conjI impI)
  assume h: "historical_ipo sdk n = Inr (OBBject (Inr df)) \<and> rows df \<noteq> [] \<and> past_schema df"
  then have d: "column_of (snd (get_past_ipos sdk n)) ''IPO Date'' =
                sort_by (\<lambda>a b. py_le b a) (column_of df ''date'')"
    by (intro past_dates) simp_all
  from h have "comparable (column_of df ''date'')"
    by (simp add: past_schema_def)
  then have "sorted_wrt (\<lambda>a b. py_le b a) (sort_by (\<lambda>a b. py_le b a) (column_of df ''date''))"
    by (rule sorted_desc)
  then have s: "sorted_wrt (\<lambda>a b. py_le b a) (column_of (snd (get_past_ipos sdk n)) ''IPO Date'')"
    by (simp only: d)
  show "length (column_of (snd (get_past_ipos sdk n)) ''IPO Date'') = length (rows df)"
    by (simp only: d length_sort_by length_column_of)
  from s show "\<forall>i j. i < j \<and> j < length (column_of (snd (get_past_ipos sdk n)) ''IPO Date'') \<longrightarrow>
         py_le (column_of (snd (get_past_ipos sdk n)) ''IPO Date'' ! j)
               (column_of (snd (get_past_ipos sdk n)) ''IPO Date'' ! i)"
    by (simp add: sorted_wrt_iff_nth_less)
next
  assume h: "historical_ipo sdk 10 = Inr (OBBject (Inr pdf)) \<and> past_schema pdf \<and>
             column_of pdf ''date'' = [Date 2024 1 1, Date 2024 6 1]"
  then have "rows pdf \<noteq> []" by (auto simp: column_of_def)
  with h have "column_of (snd (get_past_ipos sdk 10)) ''IPO Date'' =
               sort_by (\<lambda>a b. py_le b a) (column_of pdf ''date'')"
    by (intro past_dates) simp_all
  with h show "column_of (snd (get_past_ipos sdk 10)) ''IPO Date'' = [Date 2024 6 1, Date 2024 1 1]"
    by simp
qed

text \<open>The sample provider returns exactly those two dates, earlier first.\<close>

theorem past_nonincreasing_witness:
  "column_of (snd (get_past_ipos sample_obb 10)) ''IPO Date'' = [Date 2024 6 1, Date 2024 1 1] \<and>
   py_le (column_of (snd (get_past_ipos sample_obb 10)) ''IPO Date'' ! 1)
         (column_of (snd (get_past_ipos sample_obb 10)) ''IPO Date'' ! 0)"
proof -
  have p: "historical_ipo sample_obb 10 = Inr (OBBject (Inr sample_past))"
    by (simp add: sample_obb_def)
  have r: "rows sample_past \<noteq> []" and l: "length (rows sample_past) = 2"
    by (simp_all add: sample_past_def)
  show ?thesis
    using past_nonincreasing [of sample_obb 10 sample_past sample_past]
      p r l sample_past_schema sample_past_dates
    by simp
qed

text \<open>
  C4. A failure of the provider call (the call raises, the conversion to a frame raises,
  or an expected column is absent) is a failure of the body of the \<open>try\<close>, and every
  failure of that body is caught: the query prints its error lines and returns the empty
  frame. The driver goes on to the next query and to the closing line, and the exit
  status is 0.
\<close>

theorem failure_contained:
  "(upcoming_ipo sdk n = Inl e \<longrightarrow> upcoming_try sdk n = Inl e) \<and>
   (historical_ipo sdk n = Inl e \<longrightarrow> past_try sdk n = Inl e) \<and>
   (upcoming_ipo sdk n = Inr ob \<and> to_dataframe ob = Inl e \<longrightarrow> upcoming_try sdk n = Inl e) \<and>
   (historical_ipo sdk n = Inr ob \<and> to_dataframe ob = Inl e \<longrightarrow> past_try sdk n = Inl e) \<and>
   (upcoming_ipo sdk n = Inr (OBBject (Inr df)) \<and> \<not> df_empty df \<and>
    \<not> set upcoming_fields \<subseteq> set (columns df) \<longrightarrow>
      upcoming_try sdk n = Inl (KeyError ''not in index'')) \<and>
   (historical_ipo sdk n = Inr (OBBject (Inr df)) \<and> \<not> df_empty df \<and>
    \<not> set past_fields \<subseteq> set (columns df) \<longrightarrow>
      past_try sdk n = Inl (KeyError ''not in index'')) \<and>
   (upcoming_try sdk n = Inl e \<longrightarrow>
      get_upcoming_ipos sdk n =
        ([''--- Fetching the next '' @ str_int n @ '' Upcoming IPOs... ---'',
          ''ERROR: Could not fetch upcoming IPO data.'',
          ''Please ensure the 'openbb' library is installed and initialized correctly. Details: ''
            @ str_exn e],
         \<lparr>columns = [], rows = []\<rparr>)) \<and>
   (past_try sdk n = Inl e \<longrightarrow>
      get_past_ipos sdk n =
        ([''\<newline>--- Fetching the last '' @ str_int n @ '' Recent Past IPOs... ---'',
          ''ERROR: Could not fetch past IPO data.'',
          ''Please ensure the 'openbb' library is installed and initialized correctly. Details: ''
            @ str_exn e],
         \<lparr>columns = [], rows = []\<rparr>)) \<and>
   (upcoming_try sdk 10 = Inl e \<longrightarrow>
      main sdk tm =
        (fst (get_upcoming_ipos sdk 10) @
         fst (get_past_ipos sdk 10) @
         display tm ''Recent Past IPOs:'' (snd (get_past_ipos sdk 10)) @
         [''\<newline>Script Finished.''], 0)) \<and>
   (past_try sdk 10 = Inl e \<longrightarrow>
      main sdk tm =
        (fst (get_upcoming_ipos sdk 10) @
         display tm ''Upcoming IPOs:'' (snd (get_upcoming_ipos sdk 10)) @
         fst (get_past_ipos sdk 10) @
         [''\<newline>Script Finished.''], 0)) \<and>
   snd (main sdk tm) = 0"
proof -
  have a: "upcoming_ipo sdk n = Inl e \<longrightarrow> upcoming_try sdk n = Inl e"
    by (simp add: upcoming_try_raised)
  have b: "historical_ipo sdk n = Inl e \<longrightarrow> past_try sdk n = Inl e"
    by (simp add: past_try_raised)
  have c: "upcoming_ipo sdk n = Inr ob \<and> to_dataframe ob = Inl e \<longrightarrow> upcoming_try sdk n = Inl e"
    by (simp add: upcoming_try_conversion)
  have d: "historical_ipo sdk n = Inr ob \<and> to_dataframe ob = Inl e \<longrightarrow> past_try sdk n = Inl e"
    by (simp add: past_try_conversion)
  have f: "upcoming_ipo sdk n = Inr (OBBject (Inr df)) \<and> \<not> df_empty df \<and>
           \<not> set upcoming_fields \<subseteq> set (columns df) \<longrightarrow>
             upcoming_try sdk n = Inl (KeyError ''not in index'')"
    using upcoming_try_missing [of sdk n df] by blast
  have g: "historical_ipo sdk n = Inr (OBBject (Inr df)) \<and> \<not> df_empty df \<and>
           \<not> set past_fields \<subseteq> set (columns df) \<longrightarrow>
             past_try sdk n = Inl (KeyError ''not in index'')"
    using past_try_missing [of sdk n df] by blast
  have h: "upcoming_try sdk n = Inl e \<longrightarrow>
      get_upcoming_ipos sdk n =
        ([''--- Fetching the next '' @ str_int n @ '' Upcoming IPOs... ---'',
          ''ERROR: Could not fetch upcoming IPO data.'',
          ''Please ensure the 'openbb' library is installed and initialized correctly. Details: ''
            @ str_exn e],
         \<lparr>columns = [], rows = []\<rparr>)"
    using upcoming_caught [of sdk n e] by blast
  have i: "past_try sdk n = Inl e \<longrightarrow>
      get_past_ipos sdk n =
        ([''\<newline>--- Fetching the last '' @ str_int n @ '' Recent Past IPOs... ---'',
          ''ERROR: Could not fetch past IPO data.'',
          ''Please ensure the 'openbb' library is installed and initialized correctly. Details: ''
            @ str_exn e],
         \<lparr>columns = [], rows = []\<rparr>)"
    using past_caught [of sdk n e] by blast
  have j: "upcoming_try sdk 10 = Inl e \<longrightarrow>
      main sdk tm =
        (fst (get_upcoming_ipos sdk 10) @
         fst (get_past_ipos sdk 10) @
         display tm ''Recent Past IPOs:'' (snd (get_past_ipos sdk 10)) @
         [''\<newline>Script Finished.''], 0)"
  proof
    assume "upcoming_try sdk 10 = Inl e"
    then have "rows (snd (get_upcoming_ipos sdk 10)) = []"
      by (simp add: upcoming_caught)
    then have "display tm ''Upcoming IPOs:'' (snd (get_upcoming_ipos sdk 10)) = []"
      by (rule display_no_rows)
    then show "main sdk tm =
        (fst (get_upcoming_ipos sdk 10) @
         fst (get_past_ipos sdk 10) @
         display tm ''Recent Past IPOs:'' (snd (get_past_ipos sdk 10)) @
         [''\<newline>Script Finished.''], 0)"
      by (simp add: main_unfold)
  qed
  have k: "past_try sdk 10 = Inl e \<longrightarrow>
      main sdk tm =
        (fst (get_upcoming_ipos sdk 10) @
         display tm ''Upcoming IPOs:'' (snd (get_upcoming_ipos sdk 10)) @
         fst (get_past_ipos sdk 10) @
         [''\<newline>Script Finished.''], 0)"
  proof
    assume "past_try sdk 10 = Inl e"
    then have "rows (snd (get_past_ipos sdk 10)) = []"
      by (simp add: past_caught)
    then have "display tm ''Recent Past IPOs:'' (snd (get_past_ipos sdk 10)) = []"
      by (rule display_no_rows)
    then show "main sdk tm =
        (fst (get_upcoming_ipos sdk 10) @
         display tm ''Upcoming IPOs:'' (snd (get_upcoming_ipos sdk 10)) @
         fst (get_past_ipos sdk 10) @
         [''\<newline>Script Finished.''], 0)"
      by (simp add: main_unfold)
  qed
  have l: "snd (main sdk tm) = 0" by (simp add: main_unfold)
  from a b c d f g h i j k l show ?thesis by blast
qed

text \<open>A provider whose upcoming call is refused and whose past calendar lacks its price column.\<close>

theorem failure_contained_witness:
  "upcoming_ipo down_obb 10 = Inl (ProviderError ''connection refused'') \<and>
   historical_ipo down_obb 10 = Inr (OBBject (Inr sample_past_no_price)) \<and>
   \<not> set past_fields \<subseteq> set (columns sample_past_no_price) \<and>
   get_upcoming_ipos down_obb 10 =
     ([''--- Fetching the next 10 Upcoming IPOs... ---'',
       ''ERROR: Could not fetch upcoming IPO data.'',
       ''Please ensure the 'openbb' library is installed and initialized correctly. Details: connection refused''],
      \<lparr>columns = [], rows = []\<rparr>) \<and>
   get_past_ipos down_obb 10 =
     ([''\<newline>--- Fetching the last 10 Recent Past IPOs... ---'',
       ''ERROR: Could not fetch past IPO data.'',
       ''Please ensure the 'openbb' library is installed and initialized correctly. Details: not in index''],
      \<lparr>columns = [], rows = []\<rparr>) \<and>
   main down_obb header_only =
     ([''--- Fetching the next 10 Upcoming IPOs... ---'',
       ''ERROR: Could not fetch upcoming IPO data.'',
       ''Please ensure the 'openbb' library is installed and initialized correctly. Details: connection refused'',
       ''\<newline>--- Fetching the last 10 Recent Past IPOs... ---'',
       ''ERROR: Could not fetch past IPO data.'',
       ''Please ensure the 'openbb' library is installed and initialized correctly. Details: not in index'',
       ''\<newline>Script Finished.''], 0)"
proof -
  have u: "upcoming_ipo down_obb 10 = Inl (ProviderError ''connection refused'')"
    and p: "historical_ipo down_obb 10 = Inr (OBBject (Inr sample_past_no_price))"
    by (simp_all add: down_obb_def)
  have m: "\<not> set past_fields \<subseteq> set (columns sample_past_no_price)"
    and ne: "\<not> df_empty sample_past_no_price"
    by (simp_all add: past_fields_def sample_past_no_price_def df_empty_def)
  have ten: "str_int 10 = ''10''" by (simp add: str_int_def str_nat.simps)
  have up: "get_upcoming_ipos down_obb 10 =
     ([''--- Fetching the next 10 Upcoming IPOs... ---'',
       ''ERROR: Could not fetch upcoming IPO data.'',
       ''Please ensure the 'openbb' library is installed and initialized correctly. Details: connection refused''],
      \<lparr>columns = [], rows = []\<rparr>)"
    using failure_contained [of down_obb 10 "ProviderError ''connection refused''"] u
    by (simp add: ten)
  have pa: "get_past_ipos down_obb 10 =
     ([''\<newline>--- Fetching the last 10 Recent Past IPOs... ---'',
       ''ERROR: Could not fetch past IPO data.'',
       ''Please ensure the 'openbb' library is installed and initialized correctly. Details: not in index''],
      \<lparr>columns = [], rows = []\<rparr>)"
    using failure_contained [of down_obb 10 "KeyError ''not in index''" _ sample_past_no_price] p m ne
    by (simp add: ten)
  have "main down_obb header_only =
        (fst (get_upcoming_ipos down_obb 10) @
         fst (get_past_ipos down_obb 10) @
         display header_only ''Recent Past IPOs:'' (snd (get_past_ipos down_obb 10)) @
         [''\<newline>Script Finished.''], 0)"
    using failure_contained [of down_obb 10 "ProviderError ''connection refused''" _ _ header_only] u
    by simp
  then have "main down_obb header_only =
     ([''--- Fetching the next 10 Upcoming IPOs... ---'',
       ''ERROR: Could not fetch upcoming IPO data.'',
       ''Please ensure the 'openbb' library is installed and initialized correctly. Details: connection refused'',
       ''\<newline>--- Fetching the last 10 Recent Past IPOs... ---'',
       ''ERROR: Could not fetch past IPO data.'',
       ''Please ensure the 'openbb' library is installed and initialized correctly. Details: not in index'',
       ''\<newline>Script Finished.''], 0)"
    by (simp add: up pa display_def df_empty_def)
  with u p m up pa show ?thesis by simp
qed

text \<open>
  C5. A provider response with no rows is returned as it is by either query, with the
  informational line and no error line, and the driver prints no table for that query.
\<close>

theorem zero_rows_unchanged:
  "(upcoming_ipo sdk n = Inr (OBBject (Inr df)) \<and> rows df = [] \<longrightarrow>
      get_upcoming_ipos sdk n =
        ([''--- Fetching the next '' @ str_int n @ '' Upcoming IPOs... ---'',
          ''No upcoming IPOs found for the specified limit.''], df)) \<and>
   (historical_ipo sdk n = Inr (OBBject (Inr df)) \<and> rows df = [] \<longrightarrow>
      get_past_ipos sdk n =
        ([''\<newline>--- Fetching the last '' @ str_int n @ '' Recent Past IPOs... ---'',
          ''No recent past IPOs found for the specified limit.''], df)) \<and>
   (upcoming_ipo sdk 10 = Inr (OBBject (Inr df)) \<and> rows df = [] \<longrightarrow>
      fst (main sdk tm) =
        [''--- Fetching the next 10 Upcoming IPOs... ---'',
         ''No upcoming IPOs found for the specified limit.''] @
        fst (get_past_ipos sdk 10) @
        display tm ''Recent Past IPOs:'' (snd (get_past_ipos sdk 10)) @
        [''\<newline>Script Finished.'']) \<and>
   (historical_ipo sdk 10 = Inr (OBBject (Inr df)) \<and> rows df = [] \<longrightarrow>
      fst (main sdk tm) =
        fst (get_upcoming_ipos sdk 10) @
        display tm ''Upcoming IPOs:'' (snd (get_upcoming_ipos sdk 10)) @
        [''\<newline>--- Fetching the last 10 Recent Past IPOs... ---'',
         ''No recent past IPOs found for the specified limit.'',
         ''\<newline>Script Finished.''])"
proof -
  have ten: "str_int 10 = ''10''" by (simp add: str_int_def str_nat.simps)
  have a: "upcoming_ipo sdk n = Inr (OBBject (Inr df)) \<and> rows df = [] \<longrightarrow>
      get_upcoming_ipos sdk n =
        ([''--- Fetching the next '' @ str_int n @ '' Upcoming IPOs... ---'',
          ''No upcoming IPOs found for the specified limit.''], df)"
    using upcoming_no_rows [of sdk n df] by blast
  have b: "historical_ipo sdk n = Inr (OBBject (Inr df)) \<and> rows df = [] \<longrightarrow>
      get_past_ipos sdk n =
        ([''\<newline>--- Fetching the last '' @ str_int n @ '' Recent Past IPOs... ---'',
          ''No recent past IPOs found for the specified limit.''], df)"
    using past_no_rows [of sdk n df] by blast
  have c: "upcoming_ipo sdk 10 = Inr (OBBject (Inr df)) \<and> rows df = [] \<longrightarrow>
      fst (main sdk tm) =
        [''--- Fetching the next 10 Upcoming IPOs... ---'',
         ''No upcoming IPOs found for the specified limit.''] @
        fst (get_past_ipos sdk 10) @
        display tm ''Recent Past IPOs:'' (snd (get_past_ipos sdk 10)) @
        [''\<newline>Script Finished.'']"
  proof
    assume h: "upcoming_ipo sdk 10 = Inr (OBBject (Inr df)) \<and> rows df = []"
    then have g: "get_upcoming_ipos sdk 10 =
        ([''--- Fetching the next 10 Upcoming IPOs... ---'',
          ''No upcoming IPOs found for the specified limit.''], df)"
      using upcoming_no_rows [of sdk 10 df] by (simp add: ten)
    from h have "display tm ''Upcoming IPOs:'' df = []" by (simp add: display_no_rows)
    with g show "fst (main sdk tm) =
        [''--- Fetching the next 10 Upcoming IPOs... ---'',
         ''No upcoming IPOs found for the specified limit.''] @
        fst (get_past_ipos sdk 10) @
        display tm ''Recent Past IPOs:'' (snd (get_past_ipos sdk 10)) @
        [''\<newline>Script Finished.'']"
      by (simp add: main_unfold)
  qed
  have d: "historical_ipo sdk 10 = Inr (OBBject (Inr df)) \<and> rows df = [] \<longrightarrow>
      fst (main sdk tm) =
        fst (get_upcoming_ipos sdk 10) @
        display tm ''Upcoming IPOs:'' (snd (get_upcoming_ipos sdk 10)) @
        [''\<newline>--- Fetching the last 10 Recent Past IPOs... ---'',
         ''No recent past IPOs found for the specified limit.'',
         ''\<newline>Script Finished.'']"
  proof
    assume h: "historical_ipo sdk 10 = Inr (OBBject (Inr df)) \<and> rows df = []"
    then have g: "get_past_ipos sdk 10 =
        ([''\<newline>--- Fetching the last 10 Recent Past IPOs... ---'',
          ''No recent past IPOs found for the specified limit.''], df)"
      using past_no_rows [of sdk 10 df] by (simp add: ten)
    from h have "display tm ''Recent Past IPOs:'' df = []" by (simp add: display_no_rows)
    with g show "fst (main sdk tm) =
        fst (get_upcoming_ipos sdk 10) @
        display tm ''Upcoming IPOs:'' (snd (get_upcoming_ipos sdk 10)) @
        [''\<newline>--- Fetching the last 10 Recent Past IPOs... ---'',
         ''No recent past IPOs found for the specified limit.'',
         ''\<newline>Script Finished.'']"
      by (simp add: main_unfold)
  qed
  from a b c d show ?thesis by blast
qed

text \<open>A provider with two calendars that have their headers and no rows.\<close>

theorem zero_rows_unchanged_witness:
  "upcoming_ipo quiet_obb 10 = Inr (OBBject (Inr \<lparr>columns = upcoming_fields, rows = []\<rparr>)) \<and>
   get_upcoming_ipos quiet_obb 10 =
     ([''--- Fetching the next 10 Upcoming IPOs... ---'',
       ''No upcoming IPOs found for the specified limit.''],
      \<lparr>columns = upcoming_fields, rows = []\<rparr>) \<and>
   get_past_ipos quiet_obb 10 =
     ([''\<newline>--- Fetching the last 10 Recent Past IPOs... ---'',
       ''No recent past IPOs found for the specified limit.''],
      \<lparr>columns = past_fields, rows = []\<rparr>) \<and>
   fst (main quiet_obb header_only) =
     [''--- Fetching the next 10 Upcoming IPOs... ---'',
      ''No upcoming IPOs found for the specified limit.'',
      ''\<newline>--- Fetching the last 10 Recent Past IPOs... ---'',
      ''No recent past IPOs found for the specified limit.'',
      ''\<newline>Script Finished.'']"
proof -
  have u: "upcoming_ipo quiet_obb 10 = Inr (OBBject (Inr \<lparr>columns = upcoming_fields, rows = []\<rparr>))"
    and p: "historical_ipo quiet_obb 10 = Inr (OBBject (Inr \<lparr>columns = past_fields, rows = []\<rparr>))"
    by (simp_all add: quiet_obb_def)
  have ten: "str_int 10 = ''10''" by (simp add: str_int_def str_nat.simps)
  have up: "get_upcoming_ipos quiet_obb 10 =
     ([''--- Fetching the next 10 Upcoming IPOs... ---'',
       ''No upcoming IPOs found for the specified limit.''],
      \<lparr>columns = upcoming_fields, rows = []\<rparr>)"
    using zero_rows_unchanged [of quiet_obb 10 "\<lparr>columns = upcoming_fields, rows = []\<rparr>"] u
    by (simp add: ten)
  have pa: "get_past_ipos quiet_obb 10 =
     ([''\<newline>--- Fetching the last 10 Recent Past IPOs... ---'',
       ''No recent past IPOs found for the specified limit.''],
      \<lparr>columns = past_fields, rows = []\<rparr>)"
    using zero_rows_unchanged [of quiet_obb 10 "\<lparr>columns = past_fields, rows = []\<rparr>"] p
    by (simp add: ten)
  have "fst (main quiet_obb header_only) =
        [''--- Fetching the next 10 Upcoming IPOs... ---'',
         ''No upcoming IPOs found for the specified limit.''] @
        fst (get_past_ipos quiet_obb 10) @
        display header_only ''Recent Past IPOs:'' (snd (get_past_ipos quiet_obb 10)) @
        [''\<newline>Script Finished.'']"
    using zero_rows_unchanged [of quiet_obb 10 "\<lparr>columns = upcoming_fields, rows = []\<rparr>" header_only] u
    by simp
  then have "fst (main quiet_obb header_only) =
     [''--- Fetching the next 10 Upcoming IPOs... ---'',
      ''No upcoming IPOs found for the specified limit.'',
      ''\<newline>--- Fetching the last 10 Recent Past IPOs... ---'',
      ''No recent past IPOs found for the specified limit.'',
      ''\<newline>Script Finished.'']"
    by (simp add: pa display_def df_empty_def)
  with u up pa show ?thesis by simp
qed

text \<open>
  C6. For a response of three upcoming offerings with the expected dates 2025-03-01,
  2025-01-15, 2025-02-10 and all required fields, the upcoming query with limit 10
  returns three rows, in the order 2025-01-15, 2025-02-10, 2025-03-01, under exactly the
  six renamed columns.
\<close>

theorem upcoming_example:
  assumes "upcoming_ipo sdk 10 = Inr (OBBject (Inr df))" and "upcoming_schema df"
    and "column_of df ''expected_date'' = [Date 2025 3 1, Date 2025 1 15, Date 2025 2 10]"
  shows "length (rows (snd (get_upcoming_ipos sdk 10))) = 3 \<and>
         column_of (snd (get_upcoming_ipos sdk 10)) ''Expected Date'' =
           [Date 2025 1 15, Date 2025 2 10, Date 2025 3 1] \<and>
         columns (snd (get_upcoming_ipos sdk 10)) =
           [''Company Name'', ''Expected Date'', ''Shares Offered (M)'', ''Price Low ($)'',
            ''Price High ($)'', ''Exchange'']"
proof -
  have "length (column_of df ''expected_date'') = 3" by (simp add: assms(3))
  then have three: "length (rows df) = 3" by (simp add: length_column_of)
  then have ne: "rows df \<noteq> []" by auto
  have "length (rows (snd (get_upcoming_ipos sdk 10))) = 3"
    using upcoming_length [OF assms(1) ne assms(2)] three by simp
  moreover have "column_of (snd (get_upcoming_ipos sdk 10)) ''Expected Date'' =
                 [Date 2025 1 15, Date 2025 2 10, Date 2025 3 1]"
    by (simp add: upcoming_dates [OF assms(1) ne assms(2)] assms(3))
  moreover have "columns (snd (get_upcoming_ipos sdk 10)) =
           [''Company Name'', ''Expected Date'', ''Shares Offered (M)'', ''Price Low ($)'',
            ''Price High ($)'', ''Exchange'']"
    by (simp add: upcoming_result [OF assms(1) ne assms(2)] columns_reset_index
        upcoming_labels_def)
  ultimately show ?thesis by simp
qed

text \<open>The sample provider returns those three dates in that order.\<close>

theorem upcoming_example_witness:
  "column_of sample_upcoming ''expected_date'' = [Date 2025 3 1, Date 2025 1 15, Date 2025 2 10] \<and>
   length (rows (snd (get_upcoming_ipos sample_obb 10))) = 3 \<and>
   column_of (snd (get_upcoming_ipos sample_obb 10)) ''Expected Date'' =
     [Date 2025 1 15, Date 2025 2 10, Date 2025 3 1] \<and>
   columns (snd (get_upcoming_ipos sample_obb 10)) =
     [''Company Name'', ''Expected Date'', ''Shares Offered (M)'', ''Price Low ($)'',
      ''Price High ($)'', ''Exchange'']"
proof -
  have u: "upcoming_ipo sample_obb 10 = Inr (OBBject (Inr sample_upcoming))"
    by (simp add: sample_obb_def)
  show ?thesis
    using upcoming_example [OF u sample_upcoming_schema sample_upcoming_dates]
      sample_upcoming_dates
    by simp
qed

text \<open>
  C7. When the provider answers with at least one row and the response contains the
  required fields, the index of the table either query returns is 0, 1, ..., n - 1 in
  order, \<open>n\<close> the number of rows, whatever the index labels and the order of the
  provider's rows.
\<close>

theorem fresh_index:
  "(upcoming_ipo sdk n = Inr (OBBject (Inr udf)) \<and> rows udf \<noteq> [] \<and> upcoming_schema udf \<longrightarrow>
      map fst (rows (snd (get_upcoming_ipos sdk n))) =
        map (\<lambda>i. Num (real i)) [0 ..< length (rows udf)]) \<and>
   (historical_ipo sdk m = Inr (OBBject (Inr pdf)) \<and> rows pdf \<noteq> [] \<and> past_schema pdf \<longrightarrow>
      map fst (rows (snd (get_past_ipos sdk m))) =
        map (\<lambda>i. Num (real i)) [0 ..< length (rows pdf)])"
proof (intro conjI impI)
  assume "upcoming_ipo sdk n = Inr (OBBject (Inr udf)) \<and> rows udf \<noteq> [] \<and> upcoming_schema udf"
  then have u: "upcoming_ipo sdk n = Inr (OBBject (Inr udf))" and r: "rows udf \<noteq> []"
    and s: "upcoming_schema udf" by simp_all
  show "map fst (rows (snd (get_upcoming_ipos sdk n))) =
        map (\<lambda>i. Num (real i)) [0 ..< length (rows udf)]"
    by (simp add: upcoming_result [OF u r s] index_reset_index length_sort_by)
next
  assume "historical_ipo sdk m = Inr (OBBject (Inr pdf)) \<and> rows pdf \<noteq> [] \<and> past_schema pdf"
  then have p: "historical_ipo sdk m = Inr (OBBject (Inr pdf))" and r: "rows pdf \<noteq> []"
    and s: "past_schema pdf" by simp_all
  show "map fst (rows (snd (get_past_ipos sdk m))) =
        map (\<lambda>i. Num (real i)) [0 ..< length (rows pdf)]"
    by (simp add: past_result [OF p r s] index_reset_index length_sort_by)
qed

text \<open>The sample provider labels its upcoming rows 7, 2, 5.\<close>

theorem fresh_index_witness:
  "map fst (rows sample_upcoming) = [Num 7, Num 2, Num 5] \<and>
   map fst (rows (snd (get_upcoming_ipos sample_obb 10))) = [Num 0, Num 1, Num 2] \<and>
   map fst (rows (snd (get_past_ipos sample_obb 10))) = [Num 0, Num 1]"
proof -
  have u: "upcoming_ipo sample_obb 10 = Inr (OBBject (Inr sample_upcoming))"
    and p: "historical_ipo sample_obb 10 = Inr (OBBject (Inr sample_past))"
    by (simp_all add: sample_obb_def)
  have r: "rows sample_upcoming \<noteq> []" "rows sample_past \<noteq> []"
    and l: "length (rows sample_upcoming) = 3" "length (rows sample_past) = 2"
    and i: "map fst (rows sample_upcoming) = [Num 7, Num 2, Num 5]"
    by (simp_all add: sample_upcoming_def sample_past_def)
  have three: "[0 ..< 3] = [0, 1, 2]" and two: "[0 ..< 2] = [0, Suc 0]"
    by (simp_all add: upt_rec)
  show ?thesis
    using fresh_index [of sample_obb 10 sample_upcoming 10 sample_past]
      u p r l i sample_upcoming_schema sample_past_schema
    by (simp add: three two)
qed

text \<open>
  C8. A failure of the logging call at the start of the driver leaves no trace: the
  driver prints and returns the same as when the call succeeds, both queries return the
  same, and the output holds nothing but the output of the queries, the display blocks
  and the closing line.
\<close>

theorem init_hook_ignored:
  "main (sdk\<lparr>log_system_info := Some e\<rparr>) tm = main (sdk\<lparr>log_system_info := None\<rparr>) tm \<and>
   get_upcoming_ipos (sdk\<lparr>log_system_info := Some e\<rparr>) n =
     get_upcoming_ipos (sdk\<lparr>log_system_info := None\<rparr>) n \<and>
   get_past_ipos (sdk\<lparr>log_system_info := Some e\<rparr>) n =
     get_past_ipos (sdk\<lparr>log_system_info := None\<rparr>) n \<and>
   fst (main (sdk\<lparr>log_system_info := Some e\<rparr>) tm) =
     fst (get_upcoming_ipos sdk 10) @
     display tm ''Upcoming IPOs:'' (snd (get_upcoming_ipos sdk 10)) @
     fst (get_past_ipos sdk 10) @
     display tm ''Recent Past IPOs:'' (snd (get_past_ipos sdk 10)) @
     [''\<newline>Script Finished.'']"
  by (simp add: main_unfold upcoming_ignores_hook past_ignores_hook)

text \<open>A provider whose logging call raises.\<close>

theorem init_hook_ignored_witness:
  "log_system_info down_obb = Some (ProviderError ''no log directory'') \<and>
   main down_obb header_only = main (down_obb\<lparr>log_system_info := None\<rparr>) header_only \<and>
   get_upcoming_ipos down_obb 10 = get_upcoming_ipos (down_obb\<lparr>log_system_info := None\<rparr>) 10 \<and>
   get_past_ipos down_obb 10 = get_past_ipos (down_obb\<lparr>log_system_info := None\<rparr>) 10"
proof -
  have l: "log_system_info down_obb = Some (ProviderError ''no log directory'')"
    by (simp add: down_obb_def)
  have same: "down_obb\<lparr>log_system_info := Some (ProviderError ''no log directory'')\<rparr> = down_obb"
    by (simp add: down_obb_def)
  have "main (down_obb\<lparr>log_system_info := Some (ProviderError ''no log directory'')\<rparr>) header_only =
          main (down_obb\<lparr>log_system_info := None\<rparr>) header_only \<and>
        get_upcoming_ipos (down_obb\<lparr>log_system_info := Some (ProviderError ''no log directory'')\<rparr>) 10 =
          get_upcoming_ipos (down_obb\<lparr>log_system_info := None\<rparr>) 10 \<and>
        get_past_ipos (down_obb\<lparr>log_system_info := Some (ProviderError ''no log directory'')\<rparr>) 10 =
          get_past_ipos (down_obb\<lparr>log_system_info := None\<rparr>) 10"
    using init_hook_ignored
      [where sdk = down_obb and e = "ProviderError ''no log directory''" and tm = header_only and n = 10]
    by blast
  then have "main down_obb header_only = main (down_obb\<lparr>log_system_info := None\<rparr>) header_only \<and>
        get_upcoming_ipos down_obb 10 = get_upcoming_ipos (down_obb\<lparr>log_system_info := None\<rparr>) 10 \<and>
        get_past_ipos down_obb 10 = get_past_ipos (down_obb\<lparr>log_system_info := None\<rparr>) 10"
    by (simp only: same)
  with l show ?thesis by blast
qed

text \<open>
  C9. When the provider answers with at least one row and the response contains the
  required fields, either query returns as many rows as the provider gave, and the
  returned rows, index labels apart, are the projections of the provider's rows on the
  query's fields, each as often as it occurs there.
\<close>

theorem rows_permuted:
  "(upcoming_ipo sdk n = Inr (OBBject (Inr udf)) \<and> rows udf \<noteq> [] \<and> upcoming_schema udf \<longrightarrow>
      length (rows (snd (get_upcoming_ipos sdk n))) = length (rows udf) \<and>
      mset (map snd (rows (snd (get_upcoming_ipos sdk n)))) =
        mset (map (\<lambda>r. snd (project udf upcoming_fields r)) (rows udf))) \<and>
   (historical_ipo sdk m = Inr (OBBject (Inr pdf)) \<and> rows pdf \<noteq> [] \<and> past_schema pdf \<longrightarrow>
      length (rows (snd (get_past_ipos sdk m))) = length (rows pdf) \<and>
      mset (map snd (rows (snd (get_past_ipos sdk m)))) =
        mset (map (\<lambda>r. snd (project pdf past_fields r)) (rows pdf)))"
proof (intro conjI impI)
  assume "upcoming_ipo sdk n = Inr (OBBject (Inr udf)) \<and> rows udf \<noteq> [] \<and> upcoming_schema udf"
  then have u: "upcoming_ipo sdk n = Inr (OBBject (Inr udf))" and r: "rows udf \<noteq> []"
    and s: "upcoming_schema udf" by simp_all
  show "length (rows (snd (get_upcoming_ipos sdk n))) = length (rows udf)"
    using u r s by (rule upcoming_length)
  have "mset (map snd (rows (snd (get_upcoming_ipos sdk n)))) =
        image_mset snd (mset (sort_by (row_le upcoming_labels ''Expected Date'' True)
                                (map (project udf upcoming_fields) (rows udf))))"
    by (simp only: upcoming_cells [OF u r s] mset_map)
  also have "\<dots> = image_mset snd (mset (map (project udf upcoming_fields) (rows udf)))"
    by (simp only: mset_sort_by)
  also have "\<dots> = mset (map (\<lambda>r. snd (project udf upcoming_fields r)) (rows udf))"
    by (simp add: comp_def multiset.map_comp)
  finally show "mset (map snd (rows (snd (get_upcoming_ipos sdk n)))) =
        mset (map (\<lambda>r. snd (project udf upcoming_fields r)) (rows udf))" .
next
  assume "historical_ipo sdk m = Inr (OBBject (Inr pdf)) \<and> rows pdf \<noteq> [] \<and> past_schema pdf"
  then have p: "historical_ipo sdk m = Inr (OBBject (Inr pdf))" and r: "rows pdf \<noteq> []"
    and s: "past_schema pdf" by simp_all
  show "length (rows (snd (get_past_ipos sdk m))) = length (rows pdf)"
    using p r s by (rule past_length)
  have "mset (map snd (rows (snd (get_past_ipos sdk m)))) =
        image_mset snd (mset (sort_by (row_le past_labels ''IPO Date'' False)
                                (map (project pdf past_fields) (rows pdf))))"
    by (simp only: past_cells [OF p r s] mset_map)
  also have "\<dots> = image_mset snd (mset (map (project pdf past_fields) (rows pdf)))"
    by (simp only: mset_sort_by)
  also have "\<dots> = mset (map (\<lambda>r. snd (project pdf past_fields r)) (rows pdf))"
    by (simp add: comp_def multiset.map_comp)
  finally show "mset (map snd (rows (snd (get_past_ipos sdk m)))) =
        mset (map (\<lambda>r. snd (project pdf past_fields r)) (rows pdf))" .
qed

text \<open>The sample provider: the column the script does not use is dropped from every row.\<close>

theorem rows_permuted_witness:
  "length (rows (snd (get_upcoming_ipos sample_obb 10))) = 3 \<and>
   mset (map snd (rows (snd (get_upcoming_ipos sample_obb 10)))) =
     {#[Str ''Nova Grid'', Date 2025 3 1, Num 12, Num 14, Num 16, Str ''NYSE''],
       [Str ''Kelp Foods'', Date 2025 1 15, Num 8, Num 9, Num 11, Str ''NASDAQ''],
       [Str ''Tarn Robotics'', Date 2025 2 10, Num 5, Num 20, Num 23, Str ''NASDAQ'']#} \<and>
   length (rows (snd (get_past_ipos sample_obb 10))) = 2 \<and>
   mset (map snd (rows (snd (get_past_ipos sample_obb 10)))) =
     {#[Str ''Orchard Bio'', Date 2024 1 1, Num 18, Str ''NYSE''],
       [Str ''Left Bank Coffee'', Date 2024 6 1, Num 21, Str ''NASDAQ'']#}"
proof -
  have u: "upcoming_ipo sample_obb 10 = Inr (OBBject (Inr sample_upcoming))"
    and p: "historical_ipo sample_obb 10 = Inr (OBBject (Inr sample_past))"
    by (simp_all add: sample_obb_def)
  have r: "rows sample_upcoming \<noteq> []" "rows sample_past \<noteq> []"
    by (simp_all add: sample_upcoming_def sample_past_def)
  have pu: "map (\<lambda>r. snd (project sample_upcoming upcoming_fields r)) (rows sample_upcoming) =
     [[Str ''Nova Grid'', Date 2025 3 1, Num 12, Num 14, Num 16, Str ''NYSE''],
      [Str ''Kelp Foods'', Date 2025 1 15, Num 8, Num 9, Num 11, Str ''NASDAQ''],
      [Str ''Tarn Robotics'', Date 2025 2 10, Num 5, Num 20, Num 23, Str ''NASDAQ'']]"
    by (simp add: project_def sample_upcoming_def upcoming_fields_def cell_at_def)
  have pp: "map (\<lambda>r. snd (project sample_past past_fields r)) (rows sample_past) =
     [[Str ''Orchard Bio'', Date 2024 1 1, Num 18, Str ''NYSE''],
      [Str ''Left Bank Coffee'', Date 2024 6 1, Num 21, Str ''NASDAQ'']]"
    by (simp add: project_def sample_past_def past_fields_def cell_at_def)
  have l: "length (rows sample_upcoming) = 3" "length (rows sample_past) = 2"
    by (simp_all add: sample_upcoming_def sample_past_def)
  show ?thesis
    using rows_permuted [of sample_obb 10 sample_upcoming 10 sample_past]
      u p r l sample_upcoming_schema sample_past_schema
    by (simp add: pu pp)
qed

text \<open>
  C10. After a failure a query returns a frame with no rows and no columns; after a
  response with no rows it returns that response, column labels included. Both frames
  are empty, and when the response has column labels the two differ in their columns.
\<close>

theorem empty_results_distinguishable:
  "(upcoming_try sdk n = Inl e \<longrightarrow> snd (get_upcoming_ipos sdk n) = \<lparr>columns = [], rows = []\<rparr>) \<and>
   (past_try sdk n = Inl e \<longrightarrow> snd (get_past_ipos sdk n) = \<lparr>columns = [], rows = []\<rparr>) \<and>
   (upcoming_ipo sdk' n = Inr (OBBject (Inr df)) \<and> rows df = [] \<longrightarrow>
      snd (get_upcoming_ipos sdk' n) = df) \<and>
   (historical_ipo sdk' n = Inr (OBBject (Inr df)) \<and> rows df = [] \<longrightarrow>
      snd (get_past_ipos sdk' n) = df) \<and>
   (upcoming_try sdk n = Inl e \<and> upcoming_ipo sdk' n = Inr (OBBject (Inr df)) \<and> rows df = [] \<and>
    columns df \<noteq> [] \<longrightarrow>
      df_empty (snd (get_upcoming_ipos sdk' n)) \<and> df_empty (snd (get_upcoming_ipos sdk n)) \<and>
      columns (snd (get_upcoming_ipos sdk' n)) \<noteq> columns (snd (get_upcoming_ipos sdk n))) \<and>
   (past_try sdk n = Inl e \<and> historical_ipo sdk' n = Inr (OBBject (Inr df)) \<and> rows df = [] \<and>
    columns df \<noteq> [] \<longrightarrow>
      df_empty (snd (get_past_ipos sdk' n)) \<and> df_empty (snd (get_past_ipos sdk n)) \<and>
      columns (snd (get_past_ipos sdk' n)) \<noteq> columns (snd (get_past_ipos sdk n)))"
proof -
  have a: "upcoming_try sdk n = Inl e \<longrightarrow> snd (get_upcoming_ipos sdk n) = \<lparr>columns = [], rows = []\<rparr>"
    by (simp add: upcoming_caught)
  have b: "past_try sdk n = Inl e \<longrightarrow> snd (get_past_ipos sdk n) = \<lparr>columns = [], rows = []\<rparr>"
    by (simp add: past_caught)
  have c: "upcoming_ipo sdk' n = Inr (OBBject (Inr df)) \<and> rows df = [] \<longrightarrow>
           snd (get_upcoming_ipos sdk' n) = df"
    by (simp add: upcoming_no_rows)
  have d: "historical_ipo sdk' n = Inr (OBBject (Inr df)) \<and> rows df = [] \<longrightarrow>
           snd (get_past_ipos sdk' n) = df"
    by (simp add: past_no_rows)
  have f: "upcoming_try sdk n = Inl e \<and> upcoming_ipo sdk' n = Inr (OBBject (Inr df)) \<and>
           rows df = [] \<and> columns df \<noteq> [] \<longrightarrow>
      df_empty (snd (get_upcoming_ipos sdk' n)) \<and> df_empty (snd (get_upcoming_ipos sdk n)) \<and>
      columns (snd (get_upcoming_ipos sdk' n)) \<noteq> columns (snd (get_upcoming_ipos sdk n))"
    by (simp add: upcoming_caught upcoming_no_rows df_empty_def)
  have g: "past_try sdk n = Inl e \<and> historical_ipo sdk' n = Inr (OBBject (Inr df)) \<and>
           rows df = [] \<and> columns df \<noteq> [] \<longrightarrow>
      df_empty (snd (get_past_ipos sdk' n)) \<and> df_empty (snd (get_past_ipos sdk n)) \<and>
      columns (snd (get_past_ipos sdk' n)) \<noteq> columns (snd (get_past_ipos sdk n))"
    by (simp add: past_caught past_no_rows df_empty_def)
  from a b c d f g show ?thesis by blast
qed

text \<open>A provider that is down, against one that answers with headers and no rows.\<close>

theorem empty_results_distinguishable_witness:
  "upcoming_ipo down_obb 10 = Inl (ProviderError ''connection refused'') \<and>
   snd (get_upcoming_ipos down_obb 10) = \<lparr>columns = [], rows = []\<rparr> \<and>
   snd (get_upcoming_ipos quiet_obb 10) =
     \<lparr>columns = [''name'', ''expected_date'', ''expected_shares_offered'', ''price_low'',
                 ''price_high'', ''exchange''], rows = []\<rparr> \<and>
   columns (snd (get_upcoming_ipos quiet_obb 10)) \<noteq> columns (snd (get_upcoming_ipos down_obb 10))"
proof -
  have u: "upcoming_ipo down_obb 10 = Inl (ProviderError ''connection refused'')"
    by (simp add: down_obb_def)
  have q: "upcoming_ipo quiet_obb 10 = Inr (OBBject (Inr \<lparr>columns = upcoming_fields, rows = []\<rparr>))"
    by (simp add: quiet_obb_def)
  have c: "columns \<lparr>columns = upcoming_fields, rows = []\<rparr> \<noteq> []"
    by (simp add: upcoming_fields_def)
  show ?thesis
    using empty_results_distinguishable
      [of down_obb 10 "ProviderError ''connection refused''" quiet_obb
          "\<lparr>columns = upcoming_fields, rows = []\<rparr>"]
      u q c down_upcoming_try
    by (simp add: upcoming_fields_def)
qed

end
